theory Spec2Isabelle
  imports Complex_Main "HOL-Library.Multiset"
begin

section \<open>The simple strategy of krr: percentile CPU sizing, peak-plus-buffer memory sizing\<close>

text \<open>
  A shallow embedding of \<^verbatim>\<open>src/robusta_krr/strategies/simple.py\<close>.

  Numbers. The source computes on \<^verbatim>\<open>float\<close> and \<^verbatim>\<open>np.float64\<close>. Here a finite float is
  a \<^typ>\<open>real\<close> (rounding and the infinities are left out), and the one non-number that
  the source itself creates, \<^verbatim>\<open>float("NaN")\<close>, is a constructor of its own. The
  samples of a series are finite numbers, so a series holds reals.

  Exceptions. Every place where the source can raise is a branch that returns
  \<open>Inl\<close> of the exception's kind.
\<close>

subsection \<open>Data model\<close>

datatype error = KeyError | ValueError | IndexError | ValidationError

datatype pyfloat = NaN | Num real

text \<open>
  Modelled from the spec: \<^verbatim>\<open>ResourceType\<close> is imported from
  \<^verbatim>\<open>robusta_krr.core.abstract.strategies\<close>, which is not among the sources; the spec
  gives it as an enumerated tag, one of CPU and Memory.
\<close>

datatype ResourceType = CPU | Memory

text \<open>
  Modelled from the spec: \<^verbatim>\<open>ResourceRecommendation\<close> is imported from the same missing
  module; the spec gives it two optional numeric fields, \<^verbatim>\<open>request\<close> and \<^verbatim>\<open>limit\<close>.
\<close>

record ResourceRecommendation =
  request :: "pyfloat option"
  limit :: "pyfloat option"

text \<open>
  A sample series is an array of shape \<open>(n, 2)\<close>: row \<open>i\<close> is (timestamp, value).
  The per-container data \<^verbatim>\<open>dict[str, NDArray[np.float64]]\<close> is kept as the list of
  its items in insertion order, which is the order \<^verbatim>\<open>data.values()\<close> iterates in.

  Modelled from the spec: \<^verbatim>\<open>HistoryData\<close> and \<^verbatim>\<open>RunResult\<close> are imported from the
  missing module; the spec gives both as mappings keyed by resource type.
\<close>

type_synonym series = "(real \<times> real) list"
type_synonym container_data = "(string \<times> series) list"
type_synonym HistoryData = "ResourceType \<rightharpoonup> container_data"
type_synonym RunResult = "ResourceType \<rightharpoonup> ResourceRecommendation"

record SimpleStrategySettings =
  cpu_percentile :: real
  memory_buffer_percentage :: real

subsection \<open>Settings construction\<close>

text \<open>
  \<^verbatim>\<open>pd.Field(99, gt=0, le=100)\<close> and \<^verbatim>\<open>pd.Field(5, gt=0)\<close>: a field that is not
  passed takes its default; a field that is passed is checked against its bounds, and
  a violated bound fails the construction with a validation error.
\<close>

definition field_cpu_percentile :: "real option \<Rightarrow> error + real" where
  "field_cpu_percentile arg =
     (case arg of
        None \<Rightarrow> Inr 99
      | Some v \<Rightarrow> if 0 < v \<and> v \<le> 100 then Inr v else Inl ValidationError)"

definition field_memory_buffer_percentage :: "real option \<Rightarrow> error + real" where
  "field_memory_buffer_percentage arg =
     (case arg of
        None \<Rightarrow> Inr 5
      | Some v \<Rightarrow> if 0 < v then Inr v else Inl ValidationError)"

definition new_settings :: "real option \<Rightarrow> real option \<Rightarrow> error + SimpleStrategySettings" where
  "new_settings cpu_arg mem_arg =
     (case field_cpu_percentile cpu_arg of
        Inl e \<Rightarrow> Inl e
      | Inr c \<Rightarrow>
          (case field_memory_buffer_percentage mem_arg of
             Inl e \<Rightarrow> Inl e
           | Inr m \<Rightarrow> Inr \<lparr>cpu_percentile = c, memory_buffer_percentage = m\<rparr>))"

text \<open>What every constructed settings object satisfies.\<close>

definition valid_settings :: "SimpleStrategySettings \<Rightarrow> bool" where
  "valid_settings s \<longleftrightarrow>
     0 < cpu_percentile s \<and> cpu_percentile s \<le> 100 \<and> 0 < memory_buffer_percentage s"

subsection \<open>The library calls the source makes\<close>

text \<open>\<^verbatim>\<open>values[:, 1]\<close>: the value column of a series.\<close>

definition column1 :: "series \<Rightarrow> real list" where
  "column1 vals = map snd vals"

text \<open>
  \<^verbatim>\<open>np.max\<close> of a one-dimensional array, and Python's \<^verbatim>\<open>max\<close> of a list: both raise
  \<^verbatim>\<open>ValueError\<close> on an empty argument.
\<close>

fun np_max :: "real list \<Rightarrow> error + real" where
  "np_max [] = Inl ValueError"
| "np_max (x # xs) = Inr (fold max xs x)"

fun py_max :: "real list \<Rightarrow> error + real" where
  "py_max [] = Inl ValueError"
| "py_max (x # xs) = Inr (fold max xs x)"

text \<open>\<^verbatim>\<open>np.concatenate\<close> of a list of one-dimensional arrays; an empty list raises.\<close>

fun np_concatenate :: "real list list \<Rightarrow> error + real list" where
  "np_concatenate [] = Inl ValueError"
| "np_concatenate (a # as) = Inr (concat (a # as))"

text \<open>
  \<^verbatim>\<open>np.percentile(a, q)\<close> with the default method, \<^verbatim>\<open>linear\<close>: \<open>q\<close> outside \<open>[0, 100]\<close>
  raises \<^verbatim>\<open>ValueError\<close>; an empty array raises \<^verbatim>\<open>IndexError\<close>; otherwise the array is
  sorted, the virtual index is \<open>(n - 1) * q / 100\<close>, and the result is interpolated
  linearly between the entries at its floor and at the next index (clipped to the
  last index).
\<close>

definition lerp :: "real \<Rightarrow> real \<Rightarrow> real \<Rightarrow> real" where
  "lerp a b t = a + (b - a) * t"

definition linear_percentile :: "real list \<Rightarrow> real \<Rightarrow> real" where
  "linear_percentile a q =
     (let arr = sort a;
          n = length arr;
          virtual_index = real (n - 1) * (q / 100);
          previous_index = nat \<lfloor>virtual_index\<rfloor>;
          next_index = min (previous_index + 1) (n - 1);
          gamma = virtual_index - real previous_index
      in lerp (arr ! previous_index) (arr ! next_index) gamma)"

definition np_percentile :: "real list \<Rightarrow> real \<Rightarrow> error + real" where
  "np_percentile a q =
     (if q < 0 \<or> 100 < q then Inl ValueError
      else if a = [] then Inl IndexError
      else Inr (linear_percentile a q))"

subsection \<open>The two proposals\<close>

text \<open>
  \<^verbatim>\<open>[np.max(values[:, 1]) for values in data.values()]\<close>: the comprehension stops at
  the first container whose \<^verbatim>\<open>np.max\<close> raises.
\<close>

fun container_maxima :: "container_data \<Rightarrow> error + real list" where
  "container_maxima [] = Inr []"
| "container_maxima ((k, vals) # rest) =
     (case np_max (column1 vals) of
        Inl e \<Rightarrow> Inl e
      | Inr m \<Rightarrow>
          (case container_maxima rest of
             Inl e \<Rightarrow> Inl e
           | Inr ms \<Rightarrow> Inr (m # ms)))"

definition calculate_memory_proposal ::
    "SimpleStrategySettings \<Rightarrow> container_data \<Rightarrow> error + pyfloat" where
  "calculate_memory_proposal self data =
     (case container_maxima data of
        Inl e \<Rightarrow> Inl e
      | Inr data' \<Rightarrow>
          if length data' = 0 then Inr NaN
          else
            (case py_max data' of
               Inl e \<Rightarrow> Inl e
             | Inr m \<Rightarrow> Inr (Num (m * (1 + memory_buffer_percentage self / 100)))))"

definition calculate_cpu_proposal ::
    "SimpleStrategySettings \<Rightarrow> container_data \<Rightarrow> error + pyfloat" where
  "calculate_cpu_proposal self data =
     (if length data = 0 then Inr NaN
      else
        (case (if length data > 1 then np_concatenate (map (\<lambda>kv. column1 (snd kv)) data)
               else Inr (column1 (snd (data ! 0)))) of
           Inl e \<Rightarrow> Inl e
         | Inr data' \<Rightarrow>
             (case np_percentile data' (cpu_percentile self) of
                Inl e \<Rightarrow> Inl e
              | Inr p \<Rightarrow> Inr (Num p))))"

text \<open>
  The variant the redundancy claim compares with (written from the claim's words, not
  from the source): the source's function with the single-container branch taken out,
  so that the value columns are always concatenated.
\<close>

definition calculate_cpu_proposal_unbranched ::
    "SimpleStrategySettings \<Rightarrow> container_data \<Rightarrow> error + pyfloat" where
  "calculate_cpu_proposal_unbranched self data =
     (if length data = 0 then Inr NaN
      else
        (case np_concatenate (map (\<lambda>kv. column1 (snd kv)) data) of
           Inl e \<Rightarrow> Inl e
         | Inr data' \<Rightarrow>
             (case np_percentile data' (cpu_percentile self) of
                Inl e \<Rightarrow> Inl e
              | Inr p \<Rightarrow> Inr (Num p))))"

subsection \<open>The strategy\<close>

text \<open>
  \<^verbatim>\<open>history_data[ResourceType.CPU]\<close> is a dictionary subscript: an absent key raises
  \<^verbatim>\<open>KeyError\<close>. The CPU proposal is computed before the Memory entry is looked up.
  \<^verbatim>\<open>object_data\<close> is not used.
\<close>

definition run ::
    "SimpleStrategySettings \<Rightarrow> HistoryData \<Rightarrow> 'obj \<Rightarrow> error + RunResult" where
  "run settings history_data object_data =
     (case history_data CPU of
        None \<Rightarrow> Inl KeyError
      | Some cpu_data \<Rightarrow>
          (case calculate_cpu_proposal settings cpu_data of
             Inl e \<Rightarrow> Inl e
           | Inr cpu_usage \<Rightarrow>
               (case history_data Memory of
                  None \<Rightarrow> Inl KeyError
                | Some memory_data \<Rightarrow>
                    (case calculate_memory_proposal settings memory_data of
                       Inl e \<Rightarrow> Inl e
                     | Inr memory_usage \<Rightarrow>
                         Inr [CPU \<mapsto> \<lparr>request = Some cpu_usage, limit = None\<rparr>,
                              Memory \<mapsto> \<lparr>request = Some memory_usage,
                                               limit = Some memory_usage\<rparr>]))))"

section \<open>Auxiliary facts\<close>

lemma fold_max_Max: "fold max xs (x::real) = Max (set (x # xs))"
  by (simp only: Max.set_eq_fold)

lemma np_max_nonempty: "a \<noteq> [] \<Longrightarrow> np_max a = Inr (Max (set a))"
  by (cases a) (simp_all only: np_max.simps fold_max_Max, simp)

lemma py_max_nonempty: "a \<noteq> [] \<Longrightarrow> py_max a = Inr (Max (set a))"
  by (cases a) (simp_all only: py_max.simps fold_max_Max, simp)

lemma column1_Nil [simp]: "column1 vals = [] \<longleftrightarrow> vals = []"
  by (simp add: column1_def)

lemma container_maxima_ok:
  "\<forall>kv\<in>set data. snd kv \<noteq> [] \<Longrightarrow>
   container_maxima data = Inr (map (\<lambda>kv. Max (set (column1 (snd kv)))) data)"
  by (induction data rule: container_maxima.induct) (simp_all add: np_max_nonempty)

lemma container_maxima_raises:
  "\<exists>kv\<in>set data. snd kv = [] \<Longrightarrow> container_maxima data = Inl ValueError"
proof (induction data rule: container_maxima.induct)
  case 1
  then show ?case by simp
next
  case (2 k vals rest)
  show ?case
  proof (cases "vals = []")
    case True
    then show ?thesis by (simp add: column1_def)
  next
    case False
    with 2 show ?thesis by (simp add: np_max_nonempty)
  qed
qed

lemma memory_proposal_char:
  "calculate_memory_proposal self data =
     (if \<exists>kv\<in>set data. snd kv = [] then Inl ValueError
      else if data = [] then Inr NaN
      else Inr (Num (Max ((\<lambda>kv. Max (set (column1 (snd kv)))) ` set data)
                     * (1 + memory_buffer_percentage self / 100))))"
proof (cases "\<exists>kv\<in>set data. snd kv = []")
  case True
  then show ?thesis
    by (simp add: calculate_memory_proposal_def container_maxima_raises)
next
  case False
  then have ok: "container_maxima data = Inr (map (\<lambda>kv. Max (set (column1 (snd kv)))) data)"
    by (intro container_maxima_ok) auto
  show ?thesis
    using False by (simp add: calculate_memory_proposal_def ok py_max_nonempty)
qed

lemma cpu_proposal_char:
  "calculate_cpu_proposal self data =
     (if data = [] then Inr NaN
      else (case np_percentile (concat (map (\<lambda>kv. column1 (snd kv)) data)) (cpu_percentile self) of
              Inl e \<Rightarrow> Inl e | Inr p \<Rightarrow> Inr (Num p)))"
proof (cases data)
  case Nil
  then show ?thesis by (simp add: calculate_cpu_proposal_def)
next
  case (Cons kv rest)
  then show ?thesis
    by (cases rest) (simp_all add: calculate_cpu_proposal_def)
qed

lemma np_percentile_ok:
  "0 \<le> q \<Longrightarrow> q \<le> 100 \<Longrightarrow> a \<noteq> [] \<Longrightarrow> np_percentile a q = Inr (linear_percentile a q)"
  by (simp add: np_percentile_def)

lemma concat_columns_nonempty:
  "data \<noteq> [] \<Longrightarrow> \<forall>kv\<in>set data. snd kv \<noteq> [] \<Longrightarrow>
   concat (map (\<lambda>kv. column1 (snd kv)) data) \<noteq> []"
  by (cases data) simp_all

lemma linear_percentile_ex1: "linear_percentile [0] 50 = 0"
  by (simp add: linear_percentile_def lerp_def)

lemma linear_percentile_ex2: "linear_percentile [1, 2] 50 = 3/2"
  by (simp add: linear_percentile_def lerp_def)

lemma linear_percentile_ex3: "linear_percentile [0, 1, 2] 50 = 1"
  by (simp add: linear_percentile_def lerp_def)

text \<open>A settings object that was constructed is valid.\<close>

lemma new_settings_valid: "new_settings cpu_arg mem_arg = Inr s \<Longrightarrow> valid_settings s"
  by (cases cpu_arg; cases mem_arg)
     (auto simp: new_settings_def field_cpu_percentile_def
        field_memory_buffer_percentage_def valid_settings_def split: if_splits)

text \<open>Under valid settings and non-empty series neither proposal raises.\<close>

lemma cpu_proposal_total:
  assumes "valid_settings self" and "\<forall>kv\<in>set data. snd kv \<noteq> []"
  shows "\<exists>v. calculate_cpu_proposal self data = Inr v \<and> (data = [] \<longrightarrow> v = NaN)"
proof (cases "data = []")
  case True
  then show ?thesis by (simp add: cpu_proposal_char)
next
  case False
  have q: "0 \<le> cpu_percentile self" "cpu_percentile self \<le> 100"
    using assms(1) by (simp_all add: valid_settings_def)
  show ?thesis
    using False concat_columns_nonempty [OF False assms(2)]
    by (simp add: cpu_proposal_char np_percentile_ok [OF q])
qed

lemma memory_proposal_total:
  assumes "\<forall>kv\<in>set data. snd kv \<noteq> []"
  shows "\<exists>v. calculate_memory_proposal self data = Inr v \<and> (data = [] \<longrightarrow> v = NaN)"
  using assms by (simp add: memory_proposal_char)

lemma concat_columns_empty_iff:
  "concat (map (\<lambda>kv. column1 (snd kv)) data) = [] \<longleftrightarrow> (\<forall>kv\<in>set data. snd kv = [])"
  by (induction data) auto

text \<open>
  Both proposals are determined by the value columns alone, whatever the order of the
  containers.
\<close>

lemma np_percentile_mset:
  assumes "mset a = mset b"
  shows "np_percentile a q = np_percentile b q"
proof -
  have "sort a = sort b"
    using assms by (metis sorted_list_of_multiset_mset)
  moreover have "a = [] \<longleftrightarrow> b = []"
    using assms by (metis mset_zero_iff)
  ultimately show ?thesis
    by (simp add: np_percentile_def linear_percentile_def)
qed

lemma mset_concat_cong:
  assumes "mset xss = mset yss"
  shows "mset (concat xss) = mset (concat yss)"
proof -
  have "mset (concat zss) = \<Sum>\<^sub># (image_mset mset (mset zss))" for zss :: "'a list list"
    by (induction zss) simp_all
  with assms show ?thesis by simp
qed

lemma proposals_depend_on_columns:
  assumes "mset (map (\<lambda>kv. column1 (snd kv)) d1) = mset (map (\<lambda>kv. column1 (snd kv)) d2)"
  shows "calculate_cpu_proposal self d1 = calculate_cpu_proposal self d2"
    and "calculate_memory_proposal self d1 = calculate_memory_proposal self d2"
proof -
  let ?cols = "\<lambda>d :: container_data. map (\<lambda>kv. column1 (snd kv)) d"
  have empty: "d1 = [] \<longleftrightarrow> d2 = []"
    using assms by (metis mset_zero_iff map_is_Nil_conv)
  have "np_percentile (concat (?cols d1)) (cpu_percentile self)
      = np_percentile (concat (?cols d2)) (cpu_percentile self)"
    by (rule np_percentile_mset) (rule mset_concat_cong [OF assms])
  with empty show "calculate_cpu_proposal self d1 = calculate_cpu_proposal self d2"
    by (simp add: cpu_proposal_char)
  have sets: "set (?cols d1) = set (?cols d2)"
    using assms by (rule mset_eq_setD)
  have some_empty: "(\<exists>kv\<in>set d. snd kv = []) \<longleftrightarrow> [] \<in> set (?cols d)" for d :: container_data
    by (force simp: image_iff column1_def)
  have peaks: "(\<lambda>kv. Max (set (column1 (snd kv)))) ` set d = (\<lambda>c. Max (set c)) ` set (?cols d)"
    for d :: container_data
    by (simp add: image_image)
  show "calculate_memory_proposal self d1 = calculate_memory_proposal self d2"
    unfolding memory_proposal_char some_empty peaks sets using empty by simp
qed

text \<open>Raising one sample does not lower the peak of peaks.\<close>

lemma Max_set_pointwise_mono:
  fixes xs ys :: "real list"
  assumes "xs \<noteq> []" and "list_all2 (\<le>) xs ys"
  shows "Max (set xs) \<le> Max (set ys)"
proof -
  have len: "length xs = length ys"
    using assms(2) by (rule list_all2_lengthD)
  have "x \<le> Max (set ys)" if "x \<in> set xs" for x
  proof -
    from that obtain i where i: "i < length xs" and x: "x = xs ! i"
      by (auto simp: in_set_conv_nth)
    from assms(2) i have "xs ! i \<le> ys ! i"
      by (rule list_all2_nthD)
    moreover have "ys ! i \<le> Max (set ys)"
      using i len by simp
    ultimately show ?thesis using x by simp
  qed
  with assms(1) show ?thesis by simp
qed

lemma list_all2_le_update:
  fixes xs :: "real list"
  assumes "j < length xs" and "xs ! j \<le> v"
  shows "list_all2 (\<le>) xs (xs[j := v])"
proof -
  have "list_all2 (\<le>) (xs[j := xs ! j]) (xs[j := v])"
    by (rule list_all2_update_cong) (simp_all add: list_all2_refl assms(2))
  then show ?thesis by simp
qed

lemma container_peaks_nonneg:
  assumes "kv \<in> set data" and "v \<in> set (column1 (snd kv))" and "0 \<le> v"
  shows "0 \<le> Max ((\<lambda>kv. Max (set (column1 (snd kv)))) ` set data)"
proof -
  have "v \<le> Max (set (column1 (snd kv)))"
    using assms(2) by simp
  also have "\<dots> \<le> Max ((\<lambda>kv. Max (set (column1 (snd kv)))) ` set data)"
    using assms(1) by simp
  finally show ?thesis using assms(3) by simp
qed

lemma peak_update_mono:
  fixes data :: container_data
  assumes "i < length data" and "data ! i = (k, vals)" and "j < length vals"
    and "vals ! j = (t, v)" and "v \<le> v'"
  shows "Max ((\<lambda>kv. Max (set (column1 (snd kv)))) ` set data)
       \<le> Max ((\<lambda>kv. Max (set (column1 (snd kv)))) ` set (data[i := (k, vals[j := (t, v')])]))"
proof -
  let ?peak = "\<lambda>kv :: string \<times> series. Max (set (column1 (snd kv)))"
  let ?data' = "data[i := (k, vals[j := (t, v')])]"
  have col: "column1 (vals[j := (t, v')]) = (column1 vals)[j := v']"
    by (simp add: column1_def map_update)
  have "list_all2 (\<le>) (column1 vals) ((column1 vals)[j := v'])"
    by (rule list_all2_le_update) (simp_all add: column1_def assms(3,4,5))
  moreover have "column1 vals \<noteq> []"
    using assms(3) by (auto simp: column1_def)
  ultimately have one: "?peak (k, vals) \<le> ?peak (k, vals[j := (t, v')])"
    unfolding snd_conv col by (rule Max_set_pointwise_mono [rotated])
  have upd: "map ?peak ?data' = (map ?peak data)[i := ?peak (k, vals[j := (t, v')])]"
    by (rule map_update)
  have "(map ?peak data) ! i = ?peak (k, vals)"
    using assms(1,2) by simp
  with one have "list_all2 (\<le>) (map ?peak data) ((map ?peak data)[i := ?peak (k, vals[j := (t, v')])])"
    using assms(1) by (intro list_all2_le_update) simp_all
  moreover have "map ?peak data \<noteq> []"
    using assms(1) by auto
  ultimately have "Max (set (map ?peak data)) \<le> Max (set (map ?peak ?data'))"
    unfolding upd by (rule Max_set_pointwise_mono [rotated])
  then show ?thesis by (simp only: set_map)
qed

lemma series_nonempty_update:
  fixes data :: container_data
  assumes "\<forall>kv\<in>set data. snd kv \<noteq> []" and "vals \<noteq> []"
  shows "\<forall>kv\<in>set (data[i := (k, vals[j := x])]). snd kv \<noteq> []"
proof
  fix kv assume "kv \<in> set (data[i := (k, vals[j := x])])"
  then have "kv \<in> insert (k, vals[j := x]) (set data)"
    by (rule subsetD [OF set_update_subset_insert])
  then have "kv = (k, vals[j := x]) \<or> kv \<in> set data" by simp
  then show "snd kv \<noteq> []"
  proof
    assume "kv = (k, vals[j := x])"
    then show ?thesis using assms(2) by simp
  next
    assume "kv \<in> set data"
    then show ?thesis using assms(1) by simp
  qed
qed

section \<open>Properties\<close>

subsection \<open>The worked example\<close>

text \<open>
  C7. With one CPU container holding the values 1, 2, 3 and one Memory container
  holding the values 10, 20 (whatever the timestamps), \<^verbatim>\<open>cpu_percentile = 100\<close> and
  \<^verbatim>\<open>memory_buffer_percentage = 5\<close>, the CPU proposal is 3, the memory proposal is 21,
  and \<^verbatim>\<open>run\<close> returns CPU with request 3 and no limit, Memory with request 21 and
  limit 21.
\<close>

theorem run_example:
  "calculate_cpu_proposal \<lparr>cpu_percentile = 100, memory_buffer_percentage = 5\<rparr>
      [(''A'', [(t0, 1), (t1, 2), (t2, 3)])] = Inr (Num 3)
   \<and> calculate_memory_proposal \<lparr>cpu_percentile = 100, memory_buffer_percentage = 5\<rparr>
      [(''A'', [(u0, 10), (u1, 20)])] = Inr (Num 21)
   \<and> run \<lparr>cpu_percentile = 100, memory_buffer_percentage = 5\<rparr>
      [CPU \<mapsto> [(''A'', [(t0, 1), (t1, 2), (t2, 3)])],
       Memory \<mapsto> [(''A'', [(u0, 10), (u1, 20)])]] obj
     = Inr [CPU \<mapsto> \<lparr>request = Some (Num 3), limit = None\<rparr>,
            Memory \<mapsto> \<lparr>request = Some (Num 21), limit = Some (Num 21)\<rparr>]"
  by (simp add: run_def calculate_cpu_proposal_def calculate_memory_proposal_def
      np_percentile_def linear_percentile_def lerp_def column1_def)

subsection \<open>What the proposals compute\<close>

text \<open>
  C1. For valid settings and container data whose series are all non-empty,
  \<^verbatim>\<open>calculate_cpu_proposal\<close> returns NaN on the empty mapping, the
  \<^verbatim>\<open>cpu_percentile\<close>-th linear-interpolated percentile of the value column when there
  is one container, and the same percentile of the concatenation of all value columns
  when there are two or more.
\<close>

theorem cpu_proposal_cases:
  assumes "valid_settings self" and "\<forall>kv\<in>set data. snd kv \<noteq> []"
  shows "(data = [] \<longrightarrow> calculate_cpu_proposal self data = Inr NaN)
       \<and> (\<forall>k vals. data = [(k, vals)] \<longrightarrow>
            calculate_cpu_proposal self data =
              Inr (Num (linear_percentile (column1 vals) (cpu_percentile self))))
       \<and> (2 \<le> length data \<longrightarrow>
            calculate_cpu_proposal self data =
              Inr (Num (linear_percentile (concat (map (\<lambda>kv. column1 (snd kv)) data))
                                          (cpu_percentile self))))"
proof -
  have q: "0 \<le> cpu_percentile self" "cpu_percentile self \<le> 100"
    using assms(1) by (simp_all add: valid_settings_def)
  have general: "calculate_cpu_proposal self data =
      Inr (Num (linear_percentile (concat (map (\<lambda>kv. column1 (snd kv)) data))
                                  (cpu_percentile self)))" if "data \<noteq> []"
    using that concat_columns_nonempty [OF that assms(2)]
    by (simp add: cpu_proposal_char np_percentile_ok [OF q])
  have empty: "data = [] \<longrightarrow> calculate_cpu_proposal self data = Inr NaN"
    by (simp add: cpu_proposal_char)
  have single: "\<forall>k vals. data = [(k, vals)] \<longrightarrow>
            calculate_cpu_proposal self data =
              Inr (Num (linear_percentile (column1 vals) (cpu_percentile self)))"
    using general by auto
  have several: "2 \<le> length data \<longrightarrow>
            calculate_cpu_proposal self data =
              Inr (Num (linear_percentile (concat (map (\<lambda>kv. column1 (snd kv)) data))
                                          (cpu_percentile self)))"
  proof
    assume "2 \<le> length data"
    then have "data \<noteq> []" by auto
    then show "calculate_cpu_proposal self data =
              Inr (Num (linear_percentile (concat (map (\<lambda>kv. column1 (snd kv)) data))
                                          (cpu_percentile self)))"
      by (rule general)
  qed
  from empty single several show ?thesis by blast
qed

text \<open>
  At the 50th percentile, one container gives the percentile of its own column; two
  containers with the columns 0 and 1, 2 give 1, the percentile of the pooled column
  0, 1, 2, which is neither the mean (3/4) nor the maximum (3/2) of the two
  containers' own percentiles.
\<close>

theorem cpu_proposal_cases_witness:
  "valid_settings \<lparr>cpu_percentile = 50, memory_buffer_percentage = 5\<rparr>
   \<and> calculate_cpu_proposal \<lparr>cpu_percentile = 50, memory_buffer_percentage = 5\<rparr> [] = Inr NaN
   \<and> calculate_cpu_proposal \<lparr>cpu_percentile = 50, memory_buffer_percentage = 5\<rparr>
        [(''a'', [(0, 1), (1, 2)])] = Inr (Num (3 / 2))
   \<and> calculate_cpu_proposal \<lparr>cpu_percentile = 50, memory_buffer_percentage = 5\<rparr>
        [(''a'', [(0, 0)]), (''b'', [(0, 1), (1, 2)])] = Inr (Num 1)
   \<and> (1::real) \<noteq> (linear_percentile [0] 50 + linear_percentile [1, 2] 50) / 2
   \<and> (1::real) \<noteq> max (linear_percentile [0] 50) (linear_percentile [1, 2] 50)"
proof -
  let ?s = "\<lparr>cpu_percentile = 50, memory_buffer_percentage = 5\<rparr>"
  have v: "valid_settings ?s" by (simp add: valid_settings_def)
  have a: "calculate_cpu_proposal ?s [] = Inr NaN"
    using cpu_proposal_cases [OF v, of "[]"] by simp
  have b: "calculate_cpu_proposal ?s [(''a'', [(0, 1), (1, 2)])] = Inr (Num (3 / 2))"
    using cpu_proposal_cases [OF v, of "[(''a'', [(0, 1), (1, 2)])]"]
    by (simp add: column1_def linear_percentile_ex2)
  have c: "calculate_cpu_proposal ?s [(''a'', [(0, 0)]), (''b'', [(0, 1), (1, 2)])] = Inr (Num 1)"
    using cpu_proposal_cases [OF v, of "[(''a'', [(0, 0)]), (''b'', [(0, 1), (1, 2)])]"]
    by (simp add: column1_def linear_percentile_ex3)
  show ?thesis using v a b c by (simp add: linear_percentile_ex1 linear_percentile_ex2)
qed

text \<open>
  C2. For container data whose series are all non-empty, \<^verbatim>\<open>calculate_memory_proposal\<close>
  returns NaN on the empty mapping and otherwise the largest of the containers' maxima
  times \<open>1 + memory_buffer_percentage / 100\<close>.
\<close>

theorem memory_proposal_peak_of_peaks:
  assumes "\<forall>kv\<in>set data. snd kv \<noteq> []"
  shows "calculate_memory_proposal self data =
     (if data = [] then Inr NaN
      else Inr (Num (Max ((\<lambda>kv. Max (set (column1 (snd kv)))) ` set data)
                     * (1 + memory_buffer_percentage self / 100))))"
  using assms by (simp add: memory_proposal_char)

text \<open>Two containers with the peaks 20 and 40 and a buffer of 5 percent give 42.\<close>

theorem memory_proposal_peak_of_peaks_witness:
  "calculate_memory_proposal \<lparr>cpu_percentile = 99, memory_buffer_percentage = 5\<rparr>
     [(''a'', [(0, 10), (1, 20)]), (''b'', [(0, 40), (1, 30)])] = Inr (Num 42)
   \<and> calculate_memory_proposal \<lparr>cpu_percentile = 99, memory_buffer_percentage = 5\<rparr> [] = Inr NaN"
  using memory_proposal_peak_of_peaks
          [of "[(''a'', [(0, 10), (1, 20)]), (''b'', [(0, 40), (1, 30)])]"
              "\<lparr>cpu_percentile = 99, memory_buffer_percentage = 5\<rparr>"]
        memory_proposal_peak_of_peaks
          [of "[]" "\<lparr>cpu_percentile = 99, memory_buffer_percentage = 5\<rparr>"]
  by (simp add: column1_def)

text \<open>
  C10. The single-container branch of \<^verbatim>\<open>calculate_cpu_proposal\<close> is redundant: on
  every input the function returns what the variant that always concatenates returns.
\<close>

theorem single_container_branch_redundant:
  "calculate_cpu_proposal self data = calculate_cpu_proposal_unbranched self data"
proof (cases data)
  case Nil
  then show ?thesis
    by (simp add: calculate_cpu_proposal_def calculate_cpu_proposal_unbranched_def)
next
  case (Cons kv rest)
  then show ?thesis
    by (cases rest)
      (simp_all add: calculate_cpu_proposal_def calculate_cpu_proposal_unbranched_def)
qed

subsection \<open>Settings validation\<close>

text \<open>
  C4. Constructing the settings fails with a validation error exactly when a passed
  \<^verbatim>\<open>cpu_percentile\<close> is outside \<open>(0, 100]\<close> or a passed \<^verbatim>\<open>memory_buffer_percentage\<close>
  is not strictly positive; \<^verbatim>\<open>cpu_percentile\<close> 0 and 101 fail, 100 and 0.001 succeed,
  and the defaults are 99 and 5.
\<close>

theorem settings_validation:
  "new_settings cpu_arg mem_arg =
     (if (\<forall>c. cpu_arg = Some c \<longrightarrow> 0 < c \<and> c \<le> 100) \<and> (\<forall>m. mem_arg = Some m \<longrightarrow> 0 < m)
      then Inr \<lparr>cpu_percentile = (case cpu_arg of None \<Rightarrow> 99 | Some c \<Rightarrow> c),
                memory_buffer_percentage = (case mem_arg of None \<Rightarrow> 5 | Some m \<Rightarrow> m)\<rparr>
      else Inl ValidationError)
   \<and> ((\<exists>e. new_settings (Some c) (Some m) = Inl e) \<longleftrightarrow> \<not> (0 < c \<and> c \<le> 100) \<or> \<not> 0 < m)
   \<and> new_settings (Some 0) None = Inl ValidationError
   \<and> new_settings (Some 101) None = Inl ValidationError
   \<and> new_settings (Some 100) None
        = Inr \<lparr>cpu_percentile = 100, memory_buffer_percentage = 5\<rparr>
   \<and> new_settings (Some (1 / 1000)) None
        = Inr \<lparr>cpu_percentile = 1 / 1000, memory_buffer_percentage = 5\<rparr>
   \<and> new_settings None None = Inr \<lparr>cpu_percentile = 99, memory_buffer_percentage = 5\<rparr>"
  by (cases cpu_arg; cases mem_arg)
     (simp_all add: new_settings_def field_cpu_percentile_def
        field_memory_buffer_percentage_def)

text \<open>A buffer of 0 is rejected; a buffer of 10 with percentile 50 is accepted.\<close>

theorem settings_validation_witness:
  "new_settings (Some 50) (Some 0) = Inl ValidationError
   \<and> new_settings (Some 50) (Some 10)
        = Inr \<lparr>cpu_percentile = 50, memory_buffer_percentage = 10\<rparr>"
  using settings_validation [of "Some 50" "Some 0"] settings_validation [of "Some 50" "Some 10"]
  by simp

subsection \<open>The shape of the result\<close>

text \<open>
  C5. Whenever \<^verbatim>\<open>run\<close> returns, the result has exactly the keys CPU and Memory; the
  CPU entry has the CPU proposal as request and no limit, and the Memory entry has the
  memory proposal as both request and limit. (Equality is that of the values held,
  so NaN is the same value as NaN here; it is not Python's \<^verbatim>\<open>==\<close> on floats.)
\<close>

theorem run_result_shape:
  assumes "run settings history_data object_data = Inr result"
  shows "dom result = {CPU, Memory}
       \<and> (\<exists>cpu_data cpu_usage.
            history_data CPU = Some cpu_data
          \<and> calculate_cpu_proposal settings cpu_data = Inr cpu_usage
          \<and> result CPU = Some \<lparr>request = Some cpu_usage, limit = None\<rparr>)
       \<and> (\<exists>memory_data memory_usage.
            history_data Memory = Some memory_data
          \<and> calculate_memory_proposal settings memory_data = Inr memory_usage
          \<and> result Memory = Some \<lparr>request = Some memory_usage, limit = Some memory_usage\<rparr>)"
  using assms
  by (auto simp: run_def split: option.splits sum.splits if_splits)

text \<open>An input with three CPU samples and an empty Memory mapping.\<close>

theorem run_result_shape_witness:
  "run \<lparr>cpu_percentile = 100, memory_buffer_percentage = 5\<rparr>
      [CPU \<mapsto> [(''A'', [(0, 1), (1, 2), (2, 3)])], Memory \<mapsto> []] ()
     = Inr [CPU \<mapsto> \<lparr>request = Some (Num 3), limit = None\<rparr>,
            Memory \<mapsto> \<lparr>request = Some NaN, limit = Some NaN\<rparr>]
   \<and> dom [CPU \<mapsto> \<lparr>request = Some (Num 3), limit = None\<rparr>,
          Memory \<mapsto> \<lparr>request = Some NaN, limit = Some NaN\<rparr>] = {CPU, Memory}"
proof -
  let ?s = "\<lparr>cpu_percentile = 100, memory_buffer_percentage = 5\<rparr>"
  let ?h = "[CPU \<mapsto> [(''A'', [(0, 1), (1, 2), (2, 3)])], Memory \<mapsto> []]"
  let ?r = "[CPU \<mapsto> \<lparr>request = Some (Num 3), limit = None\<rparr>,
            Memory \<mapsto> \<lparr>request = Some NaN, limit = Some NaN\<rparr>]"
  have r: "run ?s ?h () = Inr ?r"
    by (simp add: run_def calculate_cpu_proposal_def calculate_memory_proposal_def
        np_percentile_def linear_percentile_def lerp_def column1_def)
  from run_result_shape [OF r] have "dom ?r = {CPU, Memory}" by blast
  with r show ?thesis by blast
qed

subsection \<open>Missing data\<close>

text \<open>
  C3 as stated fails: \<^verbatim>\<open>run\<close> subscripts \<^verbatim>\<open>history_data\<close>, so a resource type that
  is absent raises \<^verbatim>\<open>KeyError\<close>. Here the CPU data is complete and Memory is absent.
\<close>

theorem run_missing_data_counterexample:
  "run \<lparr>cpu_percentile = 99, memory_buffer_percentage = 5\<rparr>
       [CPU \<mapsto> [(''A'', [(0, 1)])]] () = Inl KeyError"
  by (simp add: run_def calculate_cpu_proposal_def np_percentile_def column1_def)

text \<open>
  C3, amended. Let the settings be valid and every series that is present be
  non-empty. If CPU or Memory is absent from \<^verbatim>\<open>history_data\<close>, \<^verbatim>\<open>run\<close> raises
  \<^verbatim>\<open>KeyError\<close>. If both are present, \<^verbatim>\<open>run\<close> returns a result with entries for CPU
  and Memory, and a resource whose container mapping is empty has NaN as its request
  (and, for Memory, as its limit).
\<close>

theorem run_missing_data:
  assumes "valid_settings settings"
    and "\<forall>cpu_data. history_data CPU = Some cpu_data \<longrightarrow> (\<forall>kv\<in>set cpu_data. snd kv \<noteq> [])"
    and "\<forall>memory_data. history_data Memory = Some memory_data \<longrightarrow>
           (\<forall>kv\<in>set memory_data. snd kv \<noteq> [])"
  shows "(history_data CPU = None \<or> history_data Memory = None \<longrightarrow>
            run settings history_data object_data = Inl KeyError)
       \<and> (\<forall>cpu_data memory_data.
            history_data CPU = Some cpu_data \<and> history_data Memory = Some memory_data \<longrightarrow>
            (\<exists>cpu_usage memory_usage.
               run settings history_data object_data =
                 Inr [CPU \<mapsto> \<lparr>request = Some cpu_usage, limit = None\<rparr>,
                      Memory \<mapsto> \<lparr>request = Some memory_usage, limit = Some memory_usage\<rparr>]
             \<and> (cpu_data = [] \<longrightarrow> cpu_usage = NaN)
             \<and> (memory_data = [] \<longrightarrow> memory_usage = NaN)))"
proof (cases "history_data CPU")
  case None
  then show ?thesis by (simp add: run_def)
next
  case cpu: (Some cpu_data)
  with assms(2) have "\<forall>kv\<in>set cpu_data. snd kv \<noteq> []" by simp
  from cpu_proposal_total [OF assms(1) this]
  obtain cpu_usage where c: "calculate_cpu_proposal settings cpu_data = Inr cpu_usage"
    and cn: "cpu_data = [] \<longrightarrow> cpu_usage = NaN" by blast
  show ?thesis
  proof (cases "history_data Memory")
    case None
    with cpu c show ?thesis by (simp add: run_def)
  next
    case mem: (Some memory_data)
    with assms(3) have "\<forall>kv\<in>set memory_data. snd kv \<noteq> []" by simp
    from memory_proposal_total [OF this]
    obtain memory_usage where m: "calculate_memory_proposal settings memory_data = Inr memory_usage"
      and mn: "memory_data = [] \<longrightarrow> memory_usage = NaN" by blast
    from cpu mem c m cn mn show ?thesis
      by (simp add: run_def)
        (rule exI [where x = cpu_usage], rule exI [where x = memory_usage], simp)
  qed
qed

text \<open>Both mappings empty; and CPU absent.\<close>

theorem run_missing_data_witness:
  "run \<lparr>cpu_percentile = 99, memory_buffer_percentage = 5\<rparr>
       [CPU \<mapsto> [], Memory \<mapsto> []] ()
     = Inr [CPU \<mapsto> \<lparr>request = Some NaN, limit = None\<rparr>,
            Memory \<mapsto> \<lparr>request = Some NaN, limit = Some NaN\<rparr>]
   \<and> run \<lparr>cpu_percentile = 99, memory_buffer_percentage = 5\<rparr>
       [Memory \<mapsto> []] () = Inl KeyError"
proof -
  let ?s = "\<lparr>cpu_percentile = 99, memory_buffer_percentage = 5\<rparr>"
  have v: "valid_settings ?s" by (simp add: valid_settings_def)
  have a: "run ?s [CPU \<mapsto> [], Memory \<mapsto> []] ()
     = Inr [CPU \<mapsto> \<lparr>request = Some NaN, limit = None\<rparr>,
            Memory \<mapsto> \<lparr>request = Some NaN, limit = Some NaN\<rparr>]"
    using run_missing_data [OF v, of "[CPU \<mapsto> [], Memory \<mapsto> []]" "()"] by simp
  have b: "run ?s [Memory \<mapsto> []] () = Inl KeyError"
    using run_missing_data [OF v, of "[Memory \<mapsto> []]" "()"] by simp
  from a b show ?thesis by blast
qed

subsection \<open>Empty series\<close>

text \<open>
  C9 as stated fails for the CPU proposal: with two containers, one of them with an
  empty series, the concatenated column is not empty and a number is returned.
\<close>

theorem empty_series_counterexample:
  "calculate_cpu_proposal \<lparr>cpu_percentile = 99, memory_buffer_percentage = 5\<rparr>
     [(''a'', []), (''b'', [(0, 1)])] = Inr (Num 1)"
  by (simp add: calculate_cpu_proposal_def np_percentile_def linear_percentile_def
      lerp_def column1_def)

text \<open>
  C9, amended. Under valid settings: if every series is non-empty, neither proposal
  raises; if some series is empty, \<^verbatim>\<open>calculate_memory_proposal\<close> raises
  \<^verbatim>\<open>ValueError\<close>; \<^verbatim>\<open>calculate_cpu_proposal\<close> raises (\<^verbatim>\<open>IndexError\<close>) exactly when there
  is at least one container and all series are empty, and otherwise returns the
  percentile of the concatenated columns, empty series contributing nothing; both
  return NaN only for the empty mapping.
\<close>

theorem empty_series:
  assumes "valid_settings self"
  shows "((\<forall>kv\<in>set data. snd kv \<noteq> []) \<longrightarrow>
            (\<exists>v. calculate_cpu_proposal self data = Inr v)
          \<and> (\<exists>v. calculate_memory_proposal self data = Inr v))
       \<and> ((\<exists>kv\<in>set data. snd kv = []) \<longrightarrow>
            calculate_memory_proposal self data = Inl ValueError)
       \<and> (calculate_cpu_proposal self data =
            (if data = [] then Inr NaN
             else if \<forall>kv\<in>set data. snd kv = [] then Inl IndexError
             else Inr (Num (linear_percentile (concat (map (\<lambda>kv. column1 (snd kv)) data))
                                              (cpu_percentile self)))))
       \<and> (calculate_cpu_proposal self data = Inr NaN \<longleftrightarrow> data = [])
       \<and> (calculate_memory_proposal self data = Inr NaN \<longleftrightarrow> data = [])"
proof -
  have q: "\<not> (cpu_percentile self < 0 \<or> 100 < cpu_percentile self)"
    using assms by (simp add: valid_settings_def)
  have cpu: "calculate_cpu_proposal self data =
            (if data = [] then Inr NaN
             else if \<forall>kv\<in>set data. snd kv = [] then Inl IndexError
             else Inr (Num (linear_percentile (concat (map (\<lambda>kv. column1 (snd kv)) data))
                                              (cpu_percentile self))))"
    using q by (simp add: cpu_proposal_char np_percentile_def concat_columns_empty_iff)
  have total: "(\<forall>kv\<in>set data. snd kv \<noteq> []) \<longrightarrow>
            (\<exists>v. calculate_cpu_proposal self data = Inr v)
          \<and> (\<exists>v. calculate_memory_proposal self data = Inr v)"
    using cpu_proposal_total [OF assms, of data] memory_proposal_total [of data self] by blast
  have mem: "(\<exists>kv\<in>set data. snd kv = []) \<longrightarrow>
            calculate_memory_proposal self data = Inl ValueError"
    by (simp add: memory_proposal_char)
  have cpu_nan: "calculate_cpu_proposal self data = Inr NaN \<longleftrightarrow> data = []"
    by (simp add: cpu)
  have mem_nan: "calculate_memory_proposal self data = Inr NaN \<longleftrightarrow> data = []"
    by (simp add: memory_proposal_char)
  from total mem cpu cpu_nan mem_nan show ?thesis by blast
qed

text \<open>
  One empty series among two makes the memory proposal raise; two empty series make
  the CPU proposal raise; one non-empty series makes both return.
\<close>

theorem empty_series_witness:
  "calculate_memory_proposal \<lparr>cpu_percentile = 99, memory_buffer_percentage = 5\<rparr>
     [(''a'', []), (''b'', [(0, 1)])] = Inl ValueError
   \<and> calculate_cpu_proposal \<lparr>cpu_percentile = 99, memory_buffer_percentage = 5\<rparr>
     [(''a'', []), (''b'', [])] = Inl IndexError
   \<and> (\<exists>v. calculate_cpu_proposal \<lparr>cpu_percentile = 99, memory_buffer_percentage = 5\<rparr>
     [(''b'', [(0, 1)])] = Inr v)
   \<and> (\<exists>v. calculate_memory_proposal \<lparr>cpu_percentile = 99, memory_buffer_percentage = 5\<rparr>
     [(''b'', [(0, 1)])] = Inr v)"
proof -
  let ?s = "\<lparr>cpu_percentile = 99, memory_buffer_percentage = 5\<rparr>"
  have v: "valid_settings ?s" by (simp add: valid_settings_def)
  have a: "calculate_memory_proposal ?s [(''a'', []), (''b'', [(0, 1)])] = Inl ValueError"
    using empty_series [OF v, of "[(''a'', []), (''b'', [(0, 1)])]"] by simp
  have b: "calculate_cpu_proposal ?s [(''a'', []), (''b'', [])] = Inl IndexError"
    using empty_series [OF v, of "[(''a'', []), (''b'', [])]"] by simp
  have c: "(\<exists>v. calculate_cpu_proposal ?s [(''b'', [(0, 1)])] = Inr v)
         \<and> (\<exists>v. calculate_memory_proposal ?s [(''b'', [(0, 1)])] = Inr v)"
    using empty_series [OF v, of "[(''b'', [(0, 1)])]"] by simp
  from a b c show ?thesis by blast
qed

subsection \<open>Timestamps\<close>

text \<open>
  C8. Two inputs (dictionaries, so with distinct keys) that hold the same containers
  with the same value columns give the same CPU proposal and the same memory proposal,
  whatever their timestamp columns are.
\<close>

theorem proposals_ignore_timestamps:
  assumes "distinct (map fst d1)" and "distinct (map fst d2)"
    and "map_of (map (\<lambda>kv. (fst kv, column1 (snd kv))) d1)
       = map_of (map (\<lambda>kv. (fst kv, column1 (snd kv))) d2)"
  shows "calculate_cpu_proposal self d1 = calculate_cpu_proposal self d2
       \<and> calculate_memory_proposal self d1 = calculate_memory_proposal self d2"
proof -
  define kc :: "string \<times> series \<Rightarrow> string \<times> real list"
    where "kc = (\<lambda>kv. (fst kv, column1 (snd kv)))"
  have keys: "map fst (map kc d) = map fst d" for d
    by (simp add: kc_def)
  have cols: "map snd (map kc d) = map (\<lambda>kv. column1 (snd kv)) d" for d
    by (simp add: kc_def)
  have dk1: "distinct (map fst (map kc d1))" and dk2: "distinct (map fst (map kc d2))"
    using assms(1,2) by (simp_all only: keys)
  have same_map: "map_of (map kc d1) = map_of (map kc d2)"
    using assms(3) by (simp only: kc_def)
  have "set (map kc d1) = set (map kc d2)"
    using map_of_inject_set [OF dk1 dk2] same_map by blast
  moreover have "distinct (map kc d1)"
    using dk1 distinct_map [of fst "map kc d1"] by blast
  moreover have "distinct (map kc d2)"
    using dk2 distinct_map [of fst "map kc d2"] by blast
  ultimately have "mset (map kc d1) = mset (map kc d2)"
    using set_eq_iff_mset_eq_distinct [of "map kc d1" "map kc d2"] by blast
  then have "mset (map snd (map kc d1)) = mset (map snd (map kc d2))"
    by (simp only: mset_map)
  then have "mset (map (\<lambda>kv. column1 (snd kv)) d1) = mset (map (\<lambda>kv. column1 (snd kv)) d2)"
    by (simp only: cols)
  then show ?thesis
    by (simp only: proposals_depend_on_columns [of d1 d2 self])
qed

text \<open>The same two value columns under different timestamps.\<close>

theorem proposals_ignore_timestamps_witness:
  "calculate_cpu_proposal \<lparr>cpu_percentile = 50, memory_buffer_percentage = 5\<rparr>
      [(''a'', [(0, 1), (1, 2)]), (''b'', [(0, 4)])]
   = calculate_cpu_proposal \<lparr>cpu_percentile = 50, memory_buffer_percentage = 5\<rparr>
      [(''a'', [(7, 1), (3, 2)]), (''b'', [(100, 4)])]
   \<and> calculate_memory_proposal \<lparr>cpu_percentile = 50, memory_buffer_percentage = 5\<rparr>
      [(''a'', [(0, 1), (1, 2)]), (''b'', [(0, 4)])]
   = calculate_memory_proposal \<lparr>cpu_percentile = 50, memory_buffer_percentage = 5\<rparr>
      [(''a'', [(7, 1), (3, 2)]), (''b'', [(100, 4)])]"
  using proposals_ignore_timestamps
    [of "[(''a'', [(0, 1), (1, 2)]), (''b'', [(0, 4)])]"
        "[(''a'', [(7, 1), (3, 2)]), (''b'', [(100, 4)])]"
        "\<lparr>cpu_percentile = 50, memory_buffer_percentage = 5\<rparr>"]
  by (simp add: column1_def)

subsection \<open>Monotonicity of the memory proposal\<close>

text \<open>
  C6. For valid settings and a non-empty input of the data model (every series
  non-empty, sample values non-negative), a larger positive buffer never gives a
  smaller memory proposal; and raising one sample of one container's series, all else
  fixed, never lowers the memory proposal. Of the non-negative samples the first half
  uses only that some sample is non-negative, which makes the peak non-negative; the
  second half does not use them.
\<close>

theorem memory_proposal_monotone:
  assumes "valid_settings self" and "data \<noteq> []" and "\<forall>kv\<in>set data. snd kv \<noteq> []"
  shows "(0 < b1 \<and> b1 \<le> b2 \<and> (\<exists>kv\<in>set data. \<exists>v\<in>set (column1 (snd kv)). 0 \<le> v) \<longrightarrow>
            (\<exists>p1 p2.
               calculate_memory_proposal (self\<lparr>memory_buffer_percentage := b1\<rparr>) data = Inr (Num p1)
             \<and> calculate_memory_proposal (self\<lparr>memory_buffer_percentage := b2\<rparr>) data = Inr (Num p2)
             \<and> p1 \<le> p2))
       \<and> (i < length data \<and> data ! i = (k, vals) \<and> j < length vals \<and> vals ! j = (t, v) \<and> v \<le> v' \<longrightarrow>
            (\<exists>p p'.
               calculate_memory_proposal self data = Inr (Num p)
             \<and> calculate_memory_proposal self (data[i := (k, vals[j := (t, v')])]) = Inr (Num p')
             \<and> p \<le> p'))"
proof (intro conjI impI)
  let ?peak = "\<lambda>d :: container_data. Max ((\<lambda>kv. Max (set (column1 (snd kv)))) ` set d)"
  have val: "calculate_memory_proposal s data = Inr (Num (?peak data * (1 + memory_buffer_percentage s / 100)))"
    for s
    using assms(2,3) by (simp add: memory_proposal_char)
  {
    assume h: "0 < b1 \<and> b1 \<le> b2 \<and> (\<exists>kv\<in>set data. \<exists>v\<in>set (column1 (snd kv)). 0 \<le> v)"
    then have "0 \<le> ?peak data"
      using container_peaks_nonneg by blast
    moreover have "1 + b1 / 100 \<le> 1 + b2 / 100"
      using h by simp
    ultimately have "?peak data * (1 + b1 / 100) \<le> ?peak data * (1 + b2 / 100)"
      by (rule mult_left_mono [rotated])
    then show "\<exists>p1 p2.
               calculate_memory_proposal (self\<lparr>memory_buffer_percentage := b1\<rparr>) data = Inr (Num p1)
             \<and> calculate_memory_proposal (self\<lparr>memory_buffer_percentage := b2\<rparr>) data = Inr (Num p2)
             \<and> p1 \<le> p2"
      by (simp add: val)
  }
  {
    assume h: "i < length data \<and> data ! i = (k, vals) \<and> j < length vals \<and> vals ! j = (t, v) \<and> v \<le> v'"
    let ?data' = "data[i := (k, vals[j := (t, v')])]"
    from h have "vals \<noteq> []" by auto
    with assms(3) have ne: "\<forall>kv\<in>set ?data'. snd kv \<noteq> []"
      by (rule series_nonempty_update)
    have "?data' \<noteq> []" using assms(2) by simp
    with ne have val': "calculate_memory_proposal self ?data'
        = Inr (Num (?peak ?data' * (1 + memory_buffer_percentage self / 100)))"
      by (simp add: memory_proposal_char)
    have "?peak data \<le> ?peak ?data'"
      using h by (intro peak_update_mono [where v = v]) simp_all
    moreover have "0 \<le> 1 + memory_buffer_percentage self / 100"
      using assms(1) by (simp add: valid_settings_def)
    ultimately have "?peak data * (1 + memory_buffer_percentage self / 100)
        \<le> ?peak ?data' * (1 + memory_buffer_percentage self / 100)"
      by (rule mult_right_mono)
    then show "\<exists>p p'.
               calculate_memory_proposal self data = Inr (Num p)
             \<and> calculate_memory_proposal self ?data' = Inr (Num p')
             \<and> p \<le> p'"
      by (simp add: val val')
  }
qed

text \<open>
  Samples 10 and 20: buffer 5 gives 21 and buffer 10 gives 22; raising the sample 20
  to 40 under buffer 5 gives 42.
\<close>

theorem memory_proposal_monotone_witness:
  "calculate_memory_proposal \<lparr>cpu_percentile = 99, memory_buffer_percentage = 5\<rparr>
      [(''a'', [(0, 10), (1, 20)])] = Inr (Num 21)
   \<and> calculate_memory_proposal \<lparr>cpu_percentile = 99, memory_buffer_percentage = 10\<rparr>
      [(''a'', [(0, 10), (1, 20)])] = Inr (Num 22)
   \<and> calculate_memory_proposal \<lparr>cpu_percentile = 99, memory_buffer_percentage = 5\<rparr>
      [(''a'', [(0, 10), (1, 40)])] = Inr (Num 42)
   \<and> (21 :: real) \<le> 22 \<and> (21 :: real) \<le> 42"
proof -
  let ?s = "\<lparr>cpu_percentile = 99, memory_buffer_percentage = 5\<rparr>"
  let ?d = "[(''a'', [(0, 10), (1, 20 :: real)])] :: container_data"
  have v: "valid_settings ?s" by (simp add: valid_settings_def)
  have ne: "?d \<noteq> []" by simp
  have se: "\<forall>kv\<in>set ?d. snd kv \<noteq> []" by simp
  note m = memory_proposal_monotone [OF v ne se, of 5 10 0 "''a''" "[(0, 10), (1, 20)]" 1 1 20 40]
  have a: "calculate_memory_proposal ?s ?d = Inr (Num 21)"
    and b: "calculate_memory_proposal \<lparr>cpu_percentile = 99, memory_buffer_percentage = 10\<rparr> ?d
              = Inr (Num 22)"
    and c: "calculate_memory_proposal ?s [(''a'', [(0, 10), (1, 40)])] = Inr (Num 42)"
    by (simp_all add: calculate_memory_proposal_def column1_def)
  from m a b c show ?thesis by simp
qed

end
